theory Spec2Isabelle
  imports Main
begin

section \<open>JavaScript strings and the string helpers of serverEncoder.ts\<close>

text \<open>
  A source string is a \<^typ>\<open>string\<close>; a value that may be \<^verbatim>\<open>null\<close> (the tests pass
  \<^verbatim>\<open>null\<close> as the source URL) or absent is a \<^typ>\<open>string option\<close>, \<open>None\<close> standing for
  \<^verbatim>\<open>null\<close>/\<^verbatim>\<open>undefined\<close>. A JavaScript \<^verbatim>\<open>Error\<close> is its message.
\<close>

datatype jsError = Error (message: string)

type_synonym path = string

text \<open>String concatenation with a possibly-null operand: \<^verbatim>\<open>"a" + null\<close> is \<^verbatim>\<open>"anull"\<close>.\<close>

definition jsToString :: "string option \<Rightarrow> string" where
  "jsToString v = (case v of None \<Rightarrow> ''null'' | Some s \<Rightarrow> s)"

text \<open>
  \<^verbatim>\<open>s.lastIndexOf(".")\<close>: the index of the last occurrence, or \<open>-1\<close> when there is none.
\<close>

definition lastIndexOf :: "string \<Rightarrow> char \<Rightarrow> int" where
  "lastIndexOf s c =
     (if c \<in> set s
      then int (length s) - 1 - int (length (takeWhile (\<lambda>x. x \<noteq> c) (rev s)))
      else - 1)"

text \<open>
  \<^verbatim>\<open>s.substr(start)\<close>: a negative \<open>start\<close> counts from the end of the string (clamped at
  the beginning); a \<open>start\<close> beyond the end gives the empty string.
\<close>

definition substr :: "string \<Rightarrow> int \<Rightarrow> string" where
  "substr s start =
     (let begin = (if start < 0 then max (int (length s) + start) 0 else start)
      in drop (nat begin) s)"

text \<open>
  \<^verbatim>\<open>
  function getExtension(url: string, fallback: string): string {
      let extension: string = (url) ? url.substr(url.lastIndexOf(".")) : "";
      if (extension.length === 0) { extension = fallback; }
      return extension;
  }\<close>
  A null and an empty \<open>url\<close> are both falsy. saveTempFile passes the whole source URL:
  \<^verbatim>\<open>stripQueryAndFragments\<close> (lines 216-218) is never called.
\<close>

definition getExtension :: "string option \<Rightarrow> string \<Rightarrow> string" where
  "getExtension url fallback =
     (let extension = (case url of
                         None \<Rightarrow> []
                       | Some u \<Rightarrow> if u = [] then [] else substr u (lastIndexOf u (CHR ''.'')))
      in if length extension = 0 then fallback else extension)"

definition urlForKey :: "string \<Rightarrow> string \<Rightarrow> string" where
  "urlForKey bucket key = ''https://s3.amazonaws.com/'' @ bucket @ ''/'' @ key"

section \<open>The regular expression of isWebUrl\<close>

text \<open>
  The character classes the pattern uses. \<^verbatim>\<open>\w\<close> is \<^verbatim>\<open>[A-Za-z0-9_]\<close>, \<^verbatim>\<open>\d\<close> is
  \<^verbatim>\<open>[0-9]\<close>, and \<^verbatim>\<open>.\<close> is every character but a line terminator (of those, line feed
  and carriage return are characters of \<^typ>\<open>char\<close>).
\<close>

datatype atom = Ch char | WordCh | WordOrDash | DigitCh | AnyCh

definition digitChars :: string where
  "digitChars = ''0123456789''"

definition wordChars :: string where
  "wordChars = ''abcdefghijklmnopqrstuvwxyzABCDEFGHIJKLMNOPQRSTUVWXYZ_'' @ digitChars"

fun amatch :: "atom \<Rightarrow> char \<Rightarrow> bool" where
  "amatch (Ch c) x = (x = c)"
| "amatch WordCh x = (x \<in> set wordChars)"
| "amatch WordOrDash x = (x \<in> set wordChars \<or> x = CHR ''-'')"
| "amatch DigitCh x = (x \<in> set digitChars)"
| "amatch AnyCh x = (x \<noteq> CHR 0x0A \<and> x \<noteq> CHR 0x0D)"

datatype regex = Atom atom | Eps | Seq regex regex | Alt regex regex | Star regex

abbreviation Opt :: "regex \<Rightarrow> regex" where
  "Opt r \<equiv> Alt r Eps"

abbreviation Plus :: "regex \<Rightarrow> regex" where
  "Plus r \<equiv> Seq r (Star r)"

abbreviation Lit :: "char \<Rightarrow> regex" where
  "Lit c \<equiv> Atom (Ch c)"

text \<open>
  \<open>rests r s\<close> lists what can remain of \<open>s\<close> once \<open>r\<close> has matched a prefix of it: every
  way the backtracking matcher can get past \<open>r\<close>. An iteration of a star that consumes
  nothing is dropped, as the matcher of the language does.
\<close>

function rests :: "regex \<Rightarrow> string \<Rightarrow> string list" where
  "rests (Atom a) s = (case s of [] \<Rightarrow> [] | c # cs \<Rightarrow> if amatch a c then [cs] else [])"
| "rests Eps s = [s]"
| "rests (Seq r1 r2) s = remdups (concat (map (rests r2) (rests r1 s)))"
| "rests (Alt r1 r2) s = remdups (rests r1 s @ rests r2 s)"
| "rests (Star r) s =
     remdups (s # concat (map (rests (Star r))
                            (filter (\<lambda>t. length t < length s) (rests r s))))"
  by pat_completeness auto
termination
  by (relation "measures [\<lambda>(r, s). size r, \<lambda>(r, s). length s]") auto

declare rests.simps(5) [simp del]

text \<open>
  \<^verbatim>\<open>/^((http[s]?|ftp):\/{2})([\w-]+\.)+(\w+)(:\d{1,5})?\/?(\w*\/?)*(\.\w*)?(\??.*)$/\<close>,
  group by group.
\<close>

definition schemeRe :: regex where
  "schemeRe =
     Seq (Alt (Seq (Lit CHR ''h'') (Seq (Lit CHR ''t'') (Seq (Lit CHR ''t'')
                 (Seq (Lit CHR ''p'') (Opt (Lit CHR ''s''))))))
              (Seq (Lit CHR ''f'') (Seq (Lit CHR ''t'') (Lit CHR ''p''))))
         (Seq (Lit CHR '':'') (Seq (Lit CHR ''/'') (Lit CHR ''/'')))"

definition labelsRe :: regex where
  "labelsRe = Plus (Seq (Plus (Atom WordOrDash)) (Lit CHR ''.''))"

definition portRe :: regex where
  "portRe =
     Opt (Seq (Lit CHR '':'')
            (Seq (Atom DigitCh) (Opt (Seq (Atom DigitCh) (Opt (Seq (Atom DigitCh)
               (Opt (Seq (Atom DigitCh) (Opt (Atom DigitCh))))))))))"

definition tailRe :: regex where
  "tailRe =
     Seq (Opt (Lit CHR ''/''))
       (Seq (Star (Seq (Star (Atom WordCh)) (Opt (Lit CHR ''/''))))
          (Seq (Opt (Seq (Lit CHR ''.'') (Star (Atom WordCh))))
             (Seq (Opt (Lit CHR ''?'')) (Star (Atom AnyCh)))))"

definition webUrlRe :: regex where
  "webUrlRe = Seq schemeRe (Seq labelsRe (Seq (Plus (Atom WordCh)) (Seq portRe tailRe)))"

text \<open>
  \<^verbatim>\<open>
  function isWebUrl(url: string): Boolean {
      if (!url) { return false; }
      return /^...$/.test(url);
  }\<close>
  The pattern is anchored at both ends, so \<^verbatim>\<open>test\<close> asks for a match of the whole string.
\<close>

definition isWebUrl :: "string option \<Rightarrow> bool" where
  "isWebUrl url =
     (case url of
        None \<Rightarrow> False
      | Some u \<Rightarrow> if u = [] then False else [] \<in> set (rests webUrlRe u))"

section \<open>The world outside the program\<close>

text \<open>
  The program talks to the file system, the \<^verbatim>\<open>tmp\<close> package, an HTTP client, the
  \<^verbatim>\<open>ffmpeg\<close> subprocess and the object store. What each of them answers is a field of
  \<open>env\<close>; what the program asked of them, in the order it asked, is the \<open>trace\<close> of the
  \<open>world\<close>, next to the set of files that exist and the shared SDK configuration.
  Every request is answered once. A request whose answer the program waits for is one
  step of the run; the unlinks, which it does not wait for, stay pending until they
  complete.
\<close>

record tmpOptions =
  postfix :: string
  keep :: bool

record putObjectRequest =
  Bucket :: string
  Key :: string
  Body :: "string option"
  ACL :: string

datatype event =
    TmpFile tmpOptions
  | CreateWriteStream path
  | RequestGet string
  | ResponsePipe path
  | TmpName tmpOptions
  | ExecFile string "string list"
  | Unlink path
  | ReadFile path
  | ConfigUpdate "string option" "string option"
  | PutObject putObjectRequest
  | ConsoleError string

record world =
  files :: "path set"
  awsConfig :: "string option \<times> string option"
  trace :: "event list"

datatype requestOutcome = RequestError jsError | Response nat

datatype pipeOutcome = Finished | PipeThrew jsError

text \<open>A failed subprocess may or may not leave a partial output file behind.\<close>

datatype execOutcome = ExecOk | ExecFailed jsError bool

record env =
  tmp_file :: "tmpOptions \<Rightarrow> jsError + path"
  tmp_tmpName :: "tmpOptions \<Rightarrow> jsError + path"
  request_get :: "string \<Rightarrow> requestOutcome"
  response_pipe :: "path \<Rightarrow> pipeOutcome"
  path_normalize :: "string \<Rightarrow> string"
  cprocess_execFile :: "string \<Rightarrow> string list \<Rightarrow> execOutcome"
  fs_unlink_failure :: "path \<Rightarrow> jsError option"
  fs_readFile :: "path \<Rightarrow> jsError + string"
  s3_putObject :: "string option \<times> string option \<Rightarrow> putObjectRequest \<Rightarrow> jsError option"

text \<open>
  What a function does with its callback: it calls it with an error and a value (either
  may be \<^verbatim>\<open>null\<close>), or an exception escapes before any call.
\<close>

datatype 'a outcome = Callback "jsError option" "'a option" | Uncaught jsError

definition emit :: "event \<Rightarrow> world \<Rightarrow> world" where
  "emit e w = w\<lparr>trace := trace w @ [e]\<rparr>"

definition console_error :: "string \<Rightarrow> world \<Rightarrow> world" where
  "console_error msg w = emit (ConsoleError msg) w"

text \<open>
  \<^verbatim>\<open>fs.unlink(p, cb)\<close> is asynchronous and the program never waits for it: the call
  returns at once and the stage calls its own callback in the same tick, so the file is
  still there at that moment. The removal, or its failure, and the log line of \<^verbatim>\<open>cb\<close>
  come later. A pending unlink is the path and the text that \<^verbatim>\<open>cb\<close> puts in front of
  the error message when it logs.
\<close>

record pendingUnlink =
  target :: path
  logPrefix :: string

text \<open>
  What a stage hands to its callback: the world as the awaited steps of the run have left
  it, and the unlinks issued so far, whose completion no stage waits for. An unlink
  issued in the tick of the callback cannot have completed at that moment; for an earlier
  one the model does not say.
\<close>

record live =
  now :: world
  pending :: "pendingUnlink list"

text \<open>
  The idiom of every clean-up in the source:
  \<^verbatim>\<open>fs.unlink(p, (err) => { if (err) { console.error(prefix + err.message); } });\<close>
\<close>

definition fs_unlink :: "path \<Rightarrow> string \<Rightarrow> live \<Rightarrow> live" where
  "fs_unlink p prefix l =
     \<lparr>now = emit (Unlink p) (now l),
      pending = pending l @ [\<lparr>target = p, logPrefix = prefix\<rparr>]\<rparr>"

text \<open>
  The unlink takes place: a file that is not there cannot be removed, and the removal of
  one that is there may still fail (\<open>fs_unlink_failure\<close>); the file stays then, and the
  failure is logged.
\<close>

definition unlinkCompletes :: "env \<Rightarrow> pendingUnlink \<Rightarrow> world \<Rightarrow> world" where
  "unlinkCompletes env u w =
     (if target u \<in> files w
      then (case fs_unlink_failure env (target u) of
              None \<Rightarrow> w\<lparr>files := files w - {target u}\<rparr>
            | Some e \<Rightarrow> console_error (logPrefix u @ message e) w)
      else console_error
             (logPrefix u @ ''ENOENT: no such file or directory, unlink '' @ target u) w)"

text \<open>
  The world once every pending unlink has completed, in the order of the calls. The model
  does not say when that is with respect to the later requests of a run: no answer of the
  environment depends on it.
\<close>

definition completed :: "env \<Rightarrow> live \<Rightarrow> world" where
  "completed env l = foldl (\<lambda>w u. unlinkCompletes env u w) (now l) (pending l)"

section \<open>The pipeline\<close>

text \<open>
  \<^verbatim>\<open>
  function networkGet(fileUrl, callback, errorCallback) {
      if (isWebUrl(fileUrl)) {
          request.get(fileUrl).on("response", callback).on("error", errorCallback);
      } else {
          errorCallback(Error("The url " + fileUrl + " is not a supported URI."));
      }
  }\<close>
  \<open>Inl\<close> is a call of \<^verbatim>\<open>errorCallback\<close>, \<open>Inr\<close> a call of \<^verbatim>\<open>callback\<close> with the status
  code of the response.
\<close>

definition networkGet :: "env \<Rightarrow> string option \<Rightarrow> world \<Rightarrow> (jsError + nat) \<times> world" where
  "networkGet env fileUrl w =
     (if isWebUrl fileUrl
      then (let w1 = emit (RequestGet (jsToString fileUrl)) w
            in case request_get env (jsToString fileUrl) of
                 RequestError e \<Rightarrow> (Inl e, w1)
               | Response status \<Rightarrow> (Inr status, w1))
      else (Inl (Error (''The url '' @ jsToString fileUrl @ '' is not a supported URI.'')), w))"

definition saveTempFileOptions :: "string option \<Rightarrow> tmpOptions" where
  "saveTempFileOptions fileUrl = \<lparr>postfix = getExtension fileUrl ''.tmp'', keep = True\<rparr>"

text \<open>
  saveTempFile (lines 152-189). The callback of \<^verbatim>\<open>tmp.file\<close> never looks at its \<^verbatim>\<open>err\<close>
  argument: when the allocation fails, \<^verbatim>\<open>inputPath\<close> is undefined and
  \<^verbatim>\<open>fs.createWriteStream(inputPath)\<close> throws, so the callback of saveTempFile is never
  called. The URL is checked by networkGet, after the file was allocated.
\<close>

definition saveTempFile :: "env \<Rightarrow> string option \<Rightarrow> world \<Rightarrow> path outcome \<times> world" where
  "saveTempFile env fileUrl w =
     (let options = saveTempFileOptions fileUrl;
          w1 = emit (TmpFile options) w
      in case tmp_file env options of
           Inl err \<Rightarrow> (Uncaught (Error ''TypeError: path must be a string or Buffer''), w1)
         | Inr inputPath \<Rightarrow>
             (let w2 = emit (CreateWriteStream inputPath)
                         (w1\<lparr>files := insert inputPath (files w1)\<rparr>)
              in case networkGet env fileUrl w2 of
                   (Inl error, w3) \<Rightarrow>
                     (Callback (Some error) None,
                      console_error (''Error thrown: '' @ message error) w3)
                 | (Inr status, w3) \<Rightarrow>
                     if status = 200
                     then (let w4 = emit (ResponsePipe inputPath) w3
                           in case response_pipe env inputPath of
                                Finished \<Rightarrow> (Callback None (Some inputPath), w4)
                              | PipeThrew e \<Rightarrow>
                                  (Callback (Some e) None,
                                   console_error (''Error thrown: '' @ message e) w4))
                     else (Callback (Some (Error (''Could not retrieve file from ''
                                                   @ jsToString fileUrl))) None, w3)))"

definition ffmpegArgs :: "string \<Rightarrow> path \<Rightarrow> string list" where
  "ffmpegArgs normalizedPath outputPath =
     [''-i'', normalizedPath, ''-codec:a'', ''libmp3lame'', ''-b:a'', ''48k'',
      ''-ar'', ''16000'', ''-af'', ''volume=3'', outputPath]"

definition convertFileOptions :: tmpOptions where
  "convertFileOptions = \<lparr>postfix = ''.mp3'', keep = False\<rparr>"

text \<open>
  convertFile (lines 112-144), up to the call of its callback. \<^verbatim>\<open>tmp.tmpName\<close> only
  chooses a name; the subprocess creates the file. When the subprocess fails, the unlink
  of the output is issued, \<^verbatim>\<open>outputPath\<close> is set to null, the error is logged and the
  callback is called, all in one tick; the callback of the unlink runs later and reads
  the variable then, so what it logs on a failure starts with "Unable to delete null".
\<close>

definition convertFile_cb :: "env \<Rightarrow> string \<Rightarrow> world \<Rightarrow> path outcome \<times> live" where
  "convertFile_cb env inputFile w =
     (let normalizedPath = path_normalize env inputFile;
          w1 = emit (TmpName convertFileOptions) w
      in case tmp_tmpName env convertFileOptions of
           Inl error \<Rightarrow> (Callback (Some error) None, \<lparr>now = w1, pending = []\<rparr>)
         | Inr outputPath \<Rightarrow>
             (let args = ffmpegArgs normalizedPath outputPath;
                  w2 = emit (ExecFile ''ffmpeg'' args) w1
              in case cprocess_execFile env ''ffmpeg'' args of
                   ExecOk \<Rightarrow>
                     (Callback None (Some outputPath),
                      \<lparr>now = w2\<lparr>files := insert outputPath (files w2)\<rparr>, pending = []\<rparr>)
                 | ExecFailed error partial \<Rightarrow>
                     (let w3 = (if partial then w2\<lparr>files := insert outputPath (files w2)\<rparr>
                                else w2);
                          l4 = fs_unlink outputPath
                                 (''Unable to delete '' @ jsToString None @ ''. Full error: '')
                                 \<lparr>now = w3, pending = []\<rparr>;
                          l5 = l4\<lparr>now := console_error (''Error thrown: '' @ message error)
                                             (now l4)\<rparr>
                      in (Callback (Some (Error ''Unable to encode the file to mp3.'')) None,
                          l5))))"

text \<open>convertFile, seen once the unlink it issued has completed.\<close>

definition convertFile :: "env \<Rightarrow> string \<Rightarrow> world \<Rightarrow> path outcome \<times> world" where
  "convertFile env inputFile w =
     (case convertFile_cb env inputFile w of (r, l) \<Rightarrow> (r, completed env l))"

text \<open>
  downloadAndEncode (lines 89-104), up to the call of its callback: the unlink of the
  downloaded file is issued once convertFile has called back, whatever it called back
  with, and the callback is called in the same tick.
\<close>

definition downloadAndEncode_cb ::
    "env \<Rightarrow> string option \<Rightarrow> world \<Rightarrow> path outcome \<times> live" where
  "downloadAndEncode_cb env sourceUrl w =
     (case saveTempFile env sourceUrl w of
        (Uncaught e, w1) \<Rightarrow> (Uncaught e, \<lparr>now = w1, pending = []\<rparr>)
      | (Callback (Some error) fileUri, w1) \<Rightarrow>
          (Callback (Some (Error (''Unable to download and save file at path ''
                                  @ jsToString sourceUrl @ ''. Error: '' @ message error)))
             None, \<lparr>now = w1, pending = []\<rparr>)
      | (Callback None None, w1) \<Rightarrow>
          (Uncaught (Error ''TypeError: Path must be a string. Received null''),
           \<lparr>now = w1, pending = []\<rparr>)
      | (Callback None (Some fileUri), w1) \<Rightarrow>
          (case convertFile_cb env fileUri w1 of
             (Uncaught e, l2) \<Rightarrow> (Uncaught e, l2)
           | (Callback error outputPath, l2) \<Rightarrow>
               (Callback error outputPath,
                fs_unlink fileUri
                  (''Unable to delete file '' @ fileUri @ ''. Error message: '') l2)))"

text \<open>downloadAndEncode, seen once the unlinks of the run have completed.\<close>

definition downloadAndEncode :: "env \<Rightarrow> string option \<Rightarrow> world \<Rightarrow> path outcome \<times> world" where
  "downloadAndEncode env sourceUrl w =
     (case downloadAndEncode_cb env sourceUrl w of (r, l) \<Rightarrow> (r, completed env l))"

text \<open>
  sendOffToBucket (lines 68-81): the \<^verbatim>\<open>err\<close> of \<^verbatim>\<open>fs.readFile\<close> is shadowed and never
  read; \<^verbatim>\<open>data\<close> is undefined when the read failed.
\<close>

definition sendOffToBucket ::
    "env \<Rightarrow> string \<Rightarrow> string \<Rightarrow> string \<Rightarrow> world \<Rightarrow> string outcome \<times> world" where
  "sendOffToBucket env fileUri bucket itemKey w =
     (let w1 = emit (ReadFile fileUri) w;
          data = (case fs_readFile env fileUri of Inl err \<Rightarrow> None | Inr d \<Rightarrow> Some d);
          params = \<lparr>Bucket = bucket, Key = itemKey, Body = data, ACL = ''public-read''\<rparr>;
          w2 = emit (PutObject params) w1
      in case s3_putObject env (awsConfig w2) params of
           Some err \<Rightarrow> (Callback (Some err) None, w2)
         | None \<Rightarrow> (Callback None (Some (urlForKey bucket itemKey)), w2))"

record Params =
  sourceUrl :: "string option"
  targetBucket :: string
  targetKey :: string
  accessKeyId :: "string option"
  accessSecret :: "string option"

text \<open>
  encode (lines 39-58), up to the call of its callback: the unlink of the mp3 file is
  issued once sendOffToBucket has called back, whatever it called back with, and the
  callback is called in the same tick.
\<close>

definition encode_cb :: "env \<Rightarrow> Params \<Rightarrow> world \<Rightarrow> string outcome \<times> live" where
  "encode_cb env params w =
     (case downloadAndEncode_cb env (sourceUrl params) w of
        (Uncaught e, l1) \<Rightarrow> (Uncaught e, l1)
      | (Callback (Some err) mp3file, l1) \<Rightarrow> (Callback (Some err) None, l1)
      | (Callback None mp3file, l1) \<Rightarrow>
          (let w2 = emit (ConfigUpdate (accessKeyId params) (accessSecret params))
                      ((now l1)\<lparr>awsConfig := (accessKeyId params, accessSecret params)\<rparr>)
           in case mp3file of
                None \<Rightarrow>
                  (Uncaught (Error ''TypeError: path must be a string or Buffer''),
                   l1\<lparr>now := w2\<rparr>)
              | Some file \<Rightarrow>
                  (case sendOffToBucket env file (targetBucket params) (targetKey params) w2 of
                     (Uncaught e, w3) \<Rightarrow> (Uncaught e, l1\<lparr>now := w3\<rparr>)
                   | (Callback err url, w3) \<Rightarrow>
                       (Callback err url,
                        fs_unlink file
                          (''Unable to delete mp3 file '' @ file @ ''. Err message: '')
                          (l1\<lparr>now := w3\<rparr>)))))"

text \<open>encode, seen once the unlinks of the run have completed.\<close>

definition encode :: "env \<Rightarrow> Params \<Rightarrow> world \<Rightarrow> string outcome \<times> world" where
  "encode env params w =
     (case encode_cb env params w of (r, l) \<Rightarrow> (r, completed env l))"

section \<open>Reading a run\<close>

text \<open>What a call added to the trace, and the subprocess calls among those events.\<close>

definition newEvents :: "world \<Rightarrow> world \<Rightarrow> event list" where
  "newEvents w w' = drop (length (trace w)) (trace w')"

fun execCalls :: "event list \<Rightarrow> (string \<times> string list) list" where
  "execCalls [] = []"
| "execCalls (ExecFile cmd args # es) = (cmd, args) # execCalls es"
| "execCalls (e # es) = execCalls es"

text \<open>
  The language of a pattern, to reason about \<open>rests\<close> on all strings at once: \<open>star A\<close> is
  every concatenation of words of \<open>A\<close>.
\<close>

inductive_set star :: "string set \<Rightarrow> string set" for A :: "string set" where
  star_nil: "[] \<in> star A"
| star_step: "u \<in> A \<Longrightarrow> v \<in> star A \<Longrightarrow> u @ v \<in> star A"

fun lang :: "regex \<Rightarrow> string set" where
  "lang (Atom a) = {[c] | c. amatch a c}"
| "lang Eps = {[]}"
| "lang (Seq r1 r2) = {u @ v | u v. u \<in> lang r1 \<and> v \<in> lang r2}"
| "lang (Alt r1 r2) = lang r1 \<union> lang r2"
| "lang (Star r) = star (lang r)"

text \<open>
  A run to evaluate: an empty disk, an environment in which every stage succeeds, and the
  bucket and key of the test-suite. Each failing environment is this one with one answer
  changed.
\<close>

definition world0 :: world where
  "world0 = \<lparr>files = {}, awsConfig = (None, None), trace = []\<rparr>"

definition envOk :: env where
  "envOk =
     \<lparr>tmp_file = (\<lambda>opts. Inr (''/tmp/tmp-1'' @ postfix opts)),
      tmp_tmpName = (\<lambda>opts. Inr (''/tmp/tmp-2'' @ postfix opts)),
      request_get = (\<lambda>u. Response 200),
      response_pipe = (\<lambda>p. Finished),
      path_normalize = (\<lambda>p. p),
      cprocess_execFile = (\<lambda>cmd args. ExecOk),
      fs_unlink_failure = (\<lambda>p. None),
      fs_readFile = (\<lambda>p. Inr ''ID3''),
      s3_putObject = (\<lambda>cfg req. None)\<rparr>"

definition paramsOk :: Params where
  "paramsOk =
     \<lparr>sourceUrl = Some ''http://a.b/c.m4a'',
      targetBucket = ''bespoken/encoder/test'',
      targetKey = ''testKey.mp3'',
      accessKeyId = None,
      accessSecret = None\<rparr>"


definition envUnlinkFails :: env where
  "envUnlinkFails =
     envOk\<lparr>fs_unlink_failure := \<lambda>p. Some (Error ''EPERM: operation not permitted'')\<rparr>"

text \<open>
  An environment in which \<^verbatim>\<open>tmp.file\<close> behaves as the package does on a postfix with a
  slash in it: the name it builds lies in a directory that does not exist, and the
  allocation fails.
\<close>

definition envTmp :: env where
  "envTmp =
     envOk\<lparr>tmp_file := \<lambda>opts.
        if CHR ''/'' \<in> set (postfix opts)
        then Inl (Error (''ENOENT: no such file or directory, open /tmp/tmp-1'' @ postfix opts))
        else Inr (''/tmp/tmp-1'' @ postfix opts)\<rparr>"

text \<open>
  The host of a URL as the URL syntax has it, to state what is claimed about hosts (the
  source has no such notion, only the pattern): the authority is what stands between
  \<^verbatim>\<open>://\<close> and the first \<^verbatim>\<open>/\<close>, \<^verbatim>\<open>?\<close> or \<^verbatim>\<open>#\<close>; the host is the authority without
  the user information before the last \<^verbatim>\<open>@\<close> and without the port.
\<close>

fun spec_afterScheme :: "string \<Rightarrow> string" where
  "spec_afterScheme (a # b # c # s) =
     (if a = CHR '':'' \<and> b = CHR ''/'' \<and> c = CHR ''/'' then s
      else spec_afterScheme (b # c # s))"
| "spec_afterScheme s = []"

definition spec_urlAuthority :: "string \<Rightarrow> string" where
  "spec_urlAuthority u =
     takeWhile (\<lambda>x. x \<notin> {CHR ''/'', CHR ''?'', CHR ''#''}) (spec_afterScheme u)"

definition spec_urlHost :: "string \<Rightarrow> string" where
  "spec_urlHost u =
     (let a = spec_urlAuthority u;
          hostport = (if CHR ''@'' \<in> set a
                      then rev (takeWhile (\<lambda>x. x \<noteq> CHR ''@'') (rev a)) else a)
      in takeWhile (\<lambda>x. x \<noteq> CHR '':'') hostport)"

text \<open>An environment in which \<^verbatim>\<open>tmp.tmpName\<close> finds no free name.\<close>

definition envNoName :: env where
  "envNoName =
     envOk\<lparr>tmp_tmpName := \<lambda>opts.
        Inl (Error ''Could not get a unique tmp filename, max tries reached'')\<rparr>"

section \<open>Properties: the matcher and its language\<close>

text \<open>
  The matcher is sound and complete for the language of the pattern, so isWebUrl is
  membership in the language of its regular expression.
\<close>

lemma rests_sound: "t \<in> set (rests r s) \<Longrightarrow> \<exists>u \<in> lang r. s = u @ t"
proof (induction r s arbitrary: t rule: rests.induct)
  case (1 a s)
  then show ?case by (cases s) (auto split: if_splits)
next
  case (2 s)
  then show ?case by simp
next
  case (3 r1 r2 s)
  from "3.prems" obtain m where m: "m \<in> set (rests r1 s)" and t: "t \<in> set (rests r2 m)"
    by auto
  from "3.IH"(1) [OF m] obtain u where u: "u \<in> lang r1" "s = u @ m" by blast
  from "3.IH"(2) [OF m t] obtain v where v: "v \<in> lang r2" "m = v @ t" by blast
  have "u @ v \<in> lang (Seq r1 r2)" using u v by auto
  moreover have "s = (u @ v) @ t" using u v by simp
  ultimately show ?case by blast
next
  case (4 r1 r2 s)
  then show ?case by auto
next
  case (5 r s)
  have "t \<in> set (rests (Star r) s)" by fact
  then have "t = s \<or> (\<exists>m \<in> set (rests r s). length m < length s \<and> t \<in> set (rests (Star r) m))"
    by (subst (asm) rests.simps(5)) (auto simp del: remdups.simps)
  then consider "t = s"
    | m where "m \<in> set (rests r s)" "length m < length s" "t \<in> set (rests (Star r) m)"
    by blast
  then show ?case
  proof cases
    case 1
    then show ?thesis by (auto intro: star_nil)
  next
    case 2
    from "5.IH"(1) [OF 2(1)] obtain u where u: "u \<in> lang r" "s = u @ m" by blast
    have "m \<in> set (filter (\<lambda>t. length t < length s) (rests r s))" using 2 by simp
    from "5.IH"(2) [OF this 2(3)] obtain v where v: "v \<in> star (lang r)" "m = v @ t" by auto
    have "u @ v \<in> lang (Star r)" using u v by (auto intro: star_step)
    moreover have "s = (u @ v) @ t" using u v by simp
    ultimately show ?thesis by blast
  qed
qed

lemma rests_star_complete:
  assumes "u \<in> star (lang r)"
    and "\<And>x t. x \<in> lang r \<Longrightarrow> t \<in> set (rests r (x @ t))"
  shows "t \<in> set (rests (Star r) (u @ t))"
  using assms(1)
proof (induction rule: star.induct)
  case star_nil
  show ?case by (subst rests.simps(5)) (simp del: remdups.simps)
next
  case (star_step x v)
  show ?case
  proof (cases "x = []")
    case True
    with star_step show ?thesis by simp
  next
    case False
    have "v @ t \<in> set (rests r (x @ v @ t))" using assms(2) [OF star_step(1)] .
    moreover have "length (v @ t) < length (x @ v @ t)" using False by simp
    ultimately show ?thesis
      using star_step.IH by (subst rests.simps(5)) (auto simp del: remdups.simps)
  qed
qed

lemma rests_complete: "u \<in> lang r \<Longrightarrow> t \<in> set (rests r (u @ t))"
proof (induction r arbitrary: u t)
  case (Atom a)
  then show ?case by auto
next
  case Eps
  then show ?case by simp
next
  case (Seq r1 r2)
  from Seq.prems obtain x y where "u = x @ y" "x \<in> lang r1" "y \<in> lang r2" by auto
  then show ?case using Seq.IH(1) [of x "y @ t"] Seq.IH(2) [of y t] by auto
next
  case (Alt r1 r2)
  then show ?case by auto
next
  case (Star r)
  then show ?case using rests_star_complete [of u r t] by simp
qed

lemma rests_lang: "[] \<in> set (rests r s) \<longleftrightarrow> s \<in> lang r"
  using rests_sound [of "[]" r s] rests_complete [of s r "[]"] by auto

lemma isWebUrl_lang: "isWebUrl (Some u) \<longleftrightarrow> u \<noteq> [] \<and> u \<in> lang webUrlRe"
  by (simp add: isWebUrl_def rests_lang)

text \<open>
  What the pattern asks of the start of a URL: one of the three schemes, then a
  non-empty run of \<^verbatim>\<open>[\w-]\<close> closed by a dot.
\<close>

lemma lang_Seq_iff:
  "s \<in> lang (Seq r1 r2) \<longleftrightarrow> (\<exists>u v. s = u @ v \<and> u \<in> lang r1 \<and> v \<in> lang r2)"
  by auto

lemma lang_Atom_iff: "s \<in> lang (Atom a) \<longleftrightarrow> (\<exists>c. s = [c] \<and> amatch a c)"
  by auto

lemma star_atoms: "u \<in> star (lang (Atom a)) \<Longrightarrow> \<forall>c \<in> set u. amatch a c"
proof (induction rule: star.induct)
  case star_nil
  show ?case by simp
next
  case (star_step x v)
  from star_step(1) obtain c where "x = [c]" "amatch a c"
    unfolding lang_Atom_iff by blast
  with star_step.IH show ?case by simp
qed

lemma lang_Plus_atoms:
  assumes "u \<in> lang (Plus (Atom a))"
  shows "\<forall>c \<in> set u. amatch a c"
proof -
  from assms obtain x y where u: "u = x @ y" and x: "x \<in> lang (Atom a)"
    and y: "y \<in> lang (Star (Atom a))"
    unfolding lang_Seq_iff by blast
  from x obtain c where "x = [c]" "amatch a c" unfolding lang_Atom_iff by blast
  moreover from y have "y \<in> star (lang (Atom a))" by (simp only: lang.simps)
  then have "\<forall>c \<in> set y. amatch a c" by (rule star_atoms)
  ultimately show ?thesis using u by simp
qed

lemma lang_literal: "lang (Lit c) = {[c]}"
  by auto

lemma lang_schemeRe:
  assumes "a \<in> lang schemeRe"
  shows "a = ''http://'' \<or> a = ''https://'' \<or> a = ''ftp://''"
proof -
  have opt: "lang (Opt (Lit CHR ''s'')) = {[CHR ''s''], []}" by auto
  from assms obtain sch sep where a: "a = sch @ sep"
    and sch: "sch \<in> lang (Alt (Seq (Lit CHR ''h'') (Seq (Lit CHR ''t'') (Seq (Lit CHR ''t'')
                 (Seq (Lit CHR ''p'') (Opt (Lit CHR ''s''))))))
              (Seq (Lit CHR ''f'') (Seq (Lit CHR ''t'') (Lit CHR ''p''))))"
    and sep: "sep \<in> lang (Seq (Lit CHR '':'') (Seq (Lit CHR ''/'') (Lit CHR ''/'')))"
    unfolding schemeRe_def lang_Seq_iff [of a] by blast
  from sep have "sep = ''://''"
    unfolding lang_Seq_iff lang_literal by auto
  moreover from sch have "sch = ''http'' \<or> sch = ''https'' \<or> sch = ''ftp''"
    unfolding lang.simps(4) Un_iff lang_Seq_iff opt lang_literal by auto
  ultimately show ?thesis using a by auto
qed

lemma lang_labelsRe:
  assumes "b \<in> lang labelsRe"
  shows "\<exists>lbl after. b = lbl @ CHR ''.'' # after \<and> (\<forall>c \<in> set lbl. amatch WordOrDash c)"
proof -
  from assms obtain x y where b: "b = x @ y"
    and x: "x \<in> lang (Seq (Plus (Atom WordOrDash)) (Lit CHR ''.''))"
    unfolding labelsRe_def lang_Seq_iff [of b] by blast
  from x obtain lbl d where xs: "x = lbl @ d" and lbl: "lbl \<in> lang (Plus (Atom WordOrDash))"
    and d: "d \<in> lang (Lit CHR ''.'')"
    unfolding lang_Seq_iff [of x] by blast
  from d have "d = ''.''" unfolding lang_literal by simp
  with b xs have "b = lbl @ CHR ''.'' # y" by simp
  with lang_Plus_atoms [OF lbl] show ?thesis by blast
qed

lemma no_label_before_delimiter:
  assumes eq: "host @ rest = lbl @ CHR ''.'' # after"
    and host: "CHR ''.'' \<notin> set host"
    and rest: "rest = [] \<or> hd rest \<in> {CHR '':'', CHR ''/'', CHR ''?'', CHR ''#''}"
    and lbl: "\<forall>c \<in> set lbl. amatch WordOrDash c"
  shows False
proof -
  from eq obtain us where
    "(host = lbl @ us \<and> us @ rest = CHR ''.'' # after)
     \<or> (host @ us = lbl \<and> rest = us @ CHR ''.'' # after)"
    by (auto simp: append_eq_append_conv2)
  then show False
  proof
    assume a: "host = lbl @ us \<and> us @ rest = CHR ''.'' # after"
    show False
    proof (cases us)
      case Nil
      with a have "rest = CHR ''.'' # after" by simp
      with rest show False by auto
    next
      case (Cons c cs)
      with a have "c = CHR ''.''" by simp
      with a Cons host show False by simp
    qed
  next
    assume a: "host @ us = lbl \<and> rest = us @ CHR ''.'' # after"
    show False
    proof (cases us)
      case Nil
      with a have "rest = CHR ''.'' # after" by simp
      with rest show False by auto
    next
      case (Cons c cs)
      with a have "hd rest = c" "c \<in> set lbl" by auto
      with lbl have "amatch WordOrDash (hd rest)" by simp
      moreover from a Cons have "rest \<noteq> []" by simp
      ultimately show False using rest by (auto simp: wordChars_def digitChars_def)
    qed
  qed
qed

lemma not_isWebUrl_dotless:
  assumes scheme: "scheme \<in> {''http'', ''https'', ''ftp''}"
    and host: "CHR ''.'' \<notin> set host"
    and rest: "rest = [] \<or> hd rest \<in> {CHR '':'', CHR ''/'', CHR ''?'', CHR ''#''}"
  shows "\<not> isWebUrl (Some (scheme @ ''://'' @ host @ rest))"
proof
  assume "isWebUrl (Some (scheme @ ''://'' @ host @ rest))"
  then have "scheme @ ''://'' @ host @ rest \<in> lang webUrlRe" by (simp add: isWebUrl_lang)
  then obtain a bc where url: "scheme @ ''://'' @ host @ rest = a @ bc"
    and a: "a \<in> lang schemeRe"
    and bc: "bc \<in> lang (Seq labelsRe (Seq (Plus (Atom WordCh)) (Seq portRe tailRe)))"
    unfolding webUrlRe_def lang_Seq_iff [of _ schemeRe] by blast
  from bc obtain b c where bc': "bc = b @ c" and b: "b \<in> lang labelsRe"
    unfolding lang_Seq_iff [of _ labelsRe] by blast
  from lang_labelsRe [OF b] obtain lbl after where
    lbl: "b = lbl @ CHR ''.'' # after" "\<forall>c \<in> set lbl. amatch WordOrDash c" by blast
  from lang_schemeRe [OF a] scheme url have "host @ rest = bc" by auto
  with lbl bc' have "host @ rest = lbl @ CHR ''.'' # (after @ c)" by simp
  from no_label_before_delimiter [OF this host rest lbl(2)] show False .
qed

text \<open>The URLs of the evaluated runs.\<close>

lemma isWebUrl_paramsOk: "isWebUrl (Some ''http://a.b/c.m4a'')"
  by code_simp

lemma not_isWebUrl_png: "\<not> isWebUrl (Some ''/assets/img.png'')"
  by code_simp

lemma isWebUrl_example: "isWebUrl (Some ''http://example.com/audio'')"
  by code_simp

lemma isWebUrl_userinfo: "isWebUrl (Some ''http://user.name@localhost/a.mp3'')"
  by code_simp

lemma not_isWebUrl_dir: "\<not> isWebUrl (Some ''http://localhost/dir.v1/audio'')"
  by code_simp

lemma not_isWebUrl_localhost: "\<not> isWebUrl (Some ''http://localhost/audio'')"
  by code_simp

section \<open>Properties: the extension of a URL\<close>

text \<open>
  What getExtension returns: the fall-back for a null or empty URL, the text from the last
  dot on when there is a dot, and the last character when there is none.
\<close>

lemma getExtension_null_or_empty:
  "getExtension None fallback = fallback" "getExtension (Some []) fallback = fallback"
  by (simp_all add: getExtension_def)

lemma getExtension_from_last_dot:
  assumes "CHR ''.'' \<notin> set ext"
  shows "getExtension (Some (pre @ CHR ''.'' # ext)) fallback = CHR ''.'' # ext"
proof -
  have "takeWhile (\<lambda>x. x \<noteq> CHR ''.'') (rev ext @ CHR ''.'' # rev pre) = rev ext"
    using assms by (subst takeWhile_append2) auto
  then have "lastIndexOf (pre @ CHR ''.'' # ext) (CHR ''.'') = int (length pre)"
    by (simp add: lastIndexOf_def)
  then show ?thesis by (simp add: getExtension_def substr_def)
qed

lemma getExtension_without_dot:
  assumes "u \<noteq> []" and "CHR ''.'' \<notin> set u"
  shows "getExtension (Some u) fallback = [last u]"
proof -
  from assms(1) obtain ys y where u: "u = ys @ [y]" by (cases u rule: rev_cases) auto
  from assms(2) have "lastIndexOf u (CHR ''.'') = - 1" by (simp add: lastIndexOf_def)
  then show ?thesis using u by (simp add: getExtension_def substr_def)
qed

section \<open>Properties: the world\<close>

lemma files_emit: "files (emit e w) = files w"
  and trace_emit: "trace (emit e w) = trace w @ [e]"
  and awsConfig_emit: "awsConfig (emit e w) = awsConfig w"
  by (simp_all add: emit_def)

lemma files_console_error: "files (console_error m w) = files w"
  and trace_console_error: "trace (console_error m w) = trace w @ [ConsoleError m]"
  and awsConfig_console_error: "awsConfig (console_error m w) = awsConfig w"
  by (simp_all add: console_error_def emit_def)

lemma now_fs_unlink: "now (fs_unlink p pre l) = emit (Unlink p) (now l)"
  and pending_fs_unlink:
    "pending (fs_unlink p pre l) = pending l @ [\<lparr>target = p, logPrefix = pre\<rparr>]"
  by (simp_all add: fs_unlink_def)

lemma files_unlinkCompletes:
  "files (unlinkCompletes env u w) =
     (if fs_unlink_failure env (target u) = None then files w - {target u} else files w)"
  by (auto simp: unlinkCompletes_def console_error_def emit_def split: option.splits)

lemma trace_unlinkCompletes:
  "trace (unlinkCompletes env u w) =
     trace w @
       (if target u \<in> files w
        then (case fs_unlink_failure env (target u) of
                None \<Rightarrow> []
              | Some e \<Rightarrow> [ConsoleError (logPrefix u @ message e)])
        else [ConsoleError (logPrefix u @ ''ENOENT: no such file or directory, unlink ''
                            @ target u)])"
  by (simp add: unlinkCompletes_def console_error_def emit_def split: option.splits)

lemma awsConfig_unlinkCompletes: "awsConfig (unlinkCompletes env u w) = awsConfig w"
  by (simp add: unlinkCompletes_def console_error_def emit_def split: option.splits)

lemma completed_Nil: "completed env \<lparr>now = w, pending = []\<rparr> = w"
  by (simp add: completed_def)

lemmas world_sel = files_emit trace_emit awsConfig_emit files_console_error
  trace_console_error awsConfig_console_error now_fs_unlink pending_fs_unlink
  files_unlinkCompletes trace_unlinkCompletes awsConfig_unlinkCompletes completed_Nil

section \<open>Properties: the stages\<close>

lemma fst_encode: "fst (encode env params w) = fst (encode_cb env params w)"
  by (simp add: encode_def split: prod.splits)

lemma saveTempFile_excl:
  "fst (saveTempFile env u w) = Callback e v \<Longrightarrow> (v = None) = (e \<noteq> None)"
  by (auto simp: saveTempFile_def networkGet_def Let_def
      split: sum.splits prod.splits if_splits requestOutcome.splits pipeOutcome.splits)

lemma convertFile_cb_excl:
  "\<exists>e v. fst (convertFile_cb env f w) = Callback e v \<and> (v = None) = (e \<noteq> None)"
  by (auto simp: convertFile_cb_def Let_def split: sum.splits execOutcome.splits)

lemma sendOffToBucket_excl:
  "\<exists>e v. fst (sendOffToBucket env f b k w) = Callback e v \<and> (v = None) = (e \<noteq> None)"
  by (auto simp: sendOffToBucket_def Let_def split: option.splits)

lemma sendOffToBucket_success:
  "fst (sendOffToBucket env f b k w) = Callback None v \<Longrightarrow> v = Some (urlForKey b k)"
  by (auto simp: sendOffToBucket_def Let_def split: option.splits)

lemma downloadAndEncode_cb_excl:
  assumes "fst (downloadAndEncode_cb env u w) = Callback e v"
  shows "(v = None) = (e \<noteq> None)"
proof -
  obtain r w1 where s: "saveTempFile env u w = (r, w1)" by (cases "saveTempFile env u w")
  show ?thesis
  proof (cases r)
    case (Uncaught x)
    with s assms show ?thesis by (simp add: downloadAndEncode_cb_def)
  next
    case (Callback se sv)
    from s Callback have ex: "(sv = None) = (se \<noteq> None)"
      using saveTempFile_excl [of env u w se sv] by simp
    show ?thesis
    proof (cases se)
      case (Some err)
      with s Callback assms show ?thesis by (auto simp: downloadAndEncode_cb_def)
    next
      case None
      with ex obtain fileUri where sv: "sv = Some fileUri" by auto
      obtain ce cv where c: "fst (convertFile_cb env fileUri w1) = Callback ce cv"
        and cex: "(cv = None) = (ce \<noteq> None)"
        using convertFile_cb_excl [of env fileUri w1] by blast
      from s Callback None sv c assms have "e = ce" "v = cv"
        by (auto simp: downloadAndEncode_cb_def split: prod.splits)
      with cex show ?thesis by simp
    qed
  qed
qed

lemma saveTempFile_called:
  "tmp_file env (saveTempFileOptions u) = Inr p \<Longrightarrow>
   \<exists>e v. fst (saveTempFile env u w) = Callback e v"
  by (auto simp: saveTempFile_def networkGet_def Let_def
      split: sum.splits prod.splits if_splits requestOutcome.splits pipeOutcome.splits)

lemma downloadAndEncode_cb_called:
  assumes "tmp_file env (saveTempFileOptions u) = Inr p"
  shows "\<exists>e v. fst (downloadAndEncode_cb env u w) = Callback e v"
proof -
  obtain se sv where s: "fst (saveTempFile env u w) = Callback se sv"
    using saveTempFile_called [OF assms] by blast
  then obtain w1 where s': "saveTempFile env u w = (Callback se sv, w1)"
    by (cases "saveTempFile env u w") simp
  have ex: "(sv = None) = (se \<noteq> None)" using saveTempFile_excl [OF s] .
  show ?thesis
  proof (cases se)
    case (Some err)
    with s' show ?thesis by (simp add: downloadAndEncode_cb_def)
  next
    case None
    with ex obtain fileUri where sv: "sv = Some fileUri" by auto
    obtain ce cv where c: "fst (convertFile_cb env fileUri w1) = Callback ce cv"
      using convertFile_cb_excl [of env fileUri w1] by blast
    with s' None sv show ?thesis
      by (auto simp: downloadAndEncode_cb_def split: prod.splits)
  qed
qed

lemma saveTempFile_success:
  assumes "fst (saveTempFile env u w) = Callback None (Some inputPath)"
  shows "saveTempFile env u w =
     (Callback None (Some inputPath),
      w\<lparr>files := insert inputPath (files w),
         trace := trace w @ [TmpFile (saveTempFileOptions u), CreateWriteStream inputPath,
                             RequestGet (jsToString u), ResponsePipe inputPath]\<rparr>)"
  using assms
  by (auto simp: saveTempFile_def networkGet_def emit_def console_error_def Let_def
      split: sum.splits if_splits requestOutcome.splits pipeOutcome.splits)

lemma downloadAndEncode_cb_invalid:
  assumes "\<not> isWebUrl src"
  shows "downloadAndEncode_cb env src w =
     (case tmp_file env \<lparr>postfix = getExtension src ''.tmp'', keep = True\<rparr> of
        Inl err \<Rightarrow>
          (Uncaught (Error ''TypeError: path must be a string or Buffer''),
           \<lparr>now = w\<lparr>trace := trace w @
                [TmpFile \<lparr>postfix = getExtension src ''.tmp'', keep = True\<rparr>]\<rparr>,
            pending = []\<rparr>)
      | Inr inputPath \<Rightarrow>
          (Callback (Some (Error (''Unable to download and save file at path ''
                                  @ jsToString src @ ''. Error: The url ''
                                  @ jsToString src @ '' is not a supported URI.''))) None,
           \<lparr>now = w\<lparr>files := insert inputPath (files w),
              trace := trace w @
                [TmpFile \<lparr>postfix = getExtension src ''.tmp'', keep = True\<rparr>,
                 CreateWriteStream inputPath,
                 ConsoleError (''Error thrown: The url '' @ jsToString src
                               @ '' is not a supported URI.'')]\<rparr>,
            pending = []\<rparr>))"
  using assms
  by (simp add: downloadAndEncode_cb_def saveTempFile_def saveTempFileOptions_def networkGet_def
      emit_def console_error_def Let_def split: sum.splits)

lemmas run_defs = encode_def encode_cb_def downloadAndEncode_def downloadAndEncode_cb_def
  saveTempFile_def networkGet_def convertFile_def convertFile_cb_def sendOffToBucket_def
  fs_unlink_def unlinkCompletes_def completed_def emit_def console_error_def
  saveTempFileOptions_def convertFileOptions_def jsToString_def urlForKey_def ffmpegArgs_def
  getExtension_def substr_def lastIndexOf_def Let_def

lemma encode_ok_run:
  "encode envOk paramsOk world0 =
     (Callback None (Some ''https://s3.amazonaws.com/bespoken/encoder/test/testKey.mp3''),
      \<lparr>files = {}, awsConfig = (None, None),
       trace = [TmpFile \<lparr>postfix = ''.m4a'', keep = True\<rparr>,
                CreateWriteStream ''/tmp/tmp-1.m4a'',
                RequestGet ''http://a.b/c.m4a'',
                ResponsePipe ''/tmp/tmp-1.m4a'',
                TmpName \<lparr>postfix = ''.mp3'', keep = False\<rparr>,
                ExecFile ''ffmpeg'' [''-i'', ''/tmp/tmp-1.m4a'', ''-codec:a'', ''libmp3lame'',
                  ''-b:a'', ''48k'', ''-ar'', ''16000'', ''-af'', ''volume=3'', ''/tmp/tmp-2.mp3''],
                Unlink ''/tmp/tmp-1.m4a'',
                ConfigUpdate None None,
                ReadFile ''/tmp/tmp-2.mp3'',
                PutObject \<lparr>Bucket = ''bespoken/encoder/test'', Key = ''testKey.mp3'',
                  Body = Some ''ID3'', ACL = ''public-read''\<rparr>,
                Unlink ''/tmp/tmp-2.mp3'']\<rparr>)"
  by (simp add: run_defs envOk_def paramsOk_def world0_def isWebUrl_paramsOk insert_Diff_if)

text \<open>
  Every call of the callback of encode passes exactly one of an error and a URL, and the
  callback is called whenever the download file could be allocated.
\<close>

lemma encode_callback_exclusive:
  "(\<forall>err url. fst (encode env params w) = Callback err url \<longrightarrow> (url = None) = (err \<noteq> None))
   \<and> (\<forall>p. tmp_file env (saveTempFileOptions (sourceUrl params)) = Inr p \<longrightarrow>
          (\<exists>err url. fst (encode env params w) = Callback err url))"
proof -
  obtain r l1 where d: "downloadAndEncode_cb env (sourceUrl params) w = (r, l1)"
    by (cases "downloadAndEncode_cb env (sourceUrl params) w")
  show ?thesis
  proof (cases r)
    case (Uncaught x)
    with d have "fst (encode env params w) = Uncaught x"
      by (simp add: fst_encode encode_cb_def)
    moreover have "\<And>p. tmp_file env (saveTempFileOptions (sourceUrl params)) \<noteq> Inr p"
      using downloadAndEncode_cb_called [of env "sourceUrl params" _ w] d Uncaught by auto
    ultimately show ?thesis by simp
  next
    case (Callback de dv)
    from d Callback have ex: "(dv = None) = (de \<noteq> None)"
      using downloadAndEncode_cb_excl [of env "sourceUrl params" w de dv] by simp
    show ?thesis
    proof (cases de)
      case (Some err)
      with d Callback show ?thesis by (simp add: fst_encode encode_cb_def)
    next
      case None
      with ex obtain mp3 where dv: "dv = Some mp3" by auto
      define w2 where "w2 = emit (ConfigUpdate (accessKeyId params) (accessSecret params))
                      ((now l1)\<lparr>awsConfig := (accessKeyId params, accessSecret params)\<rparr>)"
      obtain se sv where
        c: "fst (sendOffToBucket env mp3 (targetBucket params) (targetKey params) w2)
              = Callback se sv"
        and cex: "(sv = None) = (se \<noteq> None)"
        using sendOffToBucket_excl by blast
      from d Callback None dv c have "fst (encode env params w) = Callback se sv"
        by (auto simp: fst_encode encode_cb_def w2_def Let_def split: prod.splits)
      with cex show ?thesis by auto
    qed
  qed
qed

section \<open>Properties: the claims\<close>

text \<open>
  C1. The arguments are exclusive whenever encode calls its callback
  (\<open>encode_callback_exclusive\<close>), but encode does not call it in every run. For the valid
  URL \<^verbatim>\<open>http://example.com/audio\<close> the postfix passed to \<^verbatim>\<open>tmp.file\<close> is \<^verbatim>\<open>.com/audio\<close>;
  the allocation fails, saveTempFile ignores the \<^verbatim>\<open>err\<close> of \<^verbatim>\<open>tmp.file\<close> (convertFile
  checks the one of \<^verbatim>\<open>tmp.tmpName\<close>) and passes the undefined path to
  \<^verbatim>\<open>fs.createWriteStream\<close>, which throws: the run ends after the allocation attempt, and
  the callback has received neither a URL nor an error.
\<close>

theorem encode_never_calls_back:
  "isWebUrl (Some ''http://example.com/audio'')
   \<and> encode envTmp (paramsOk\<lparr>sourceUrl := Some ''http://example.com/audio''\<rparr>) world0 =
       (Uncaught (Error ''TypeError: path must be a string or Buffer''),
        \<lparr>files = {}, awsConfig = (None, None),
         trace = [TmpFile \<lparr>postfix = ''.com/audio'', keep = True\<rparr>]\<rparr>)"
  by (simp add: run_defs envTmp_def envOk_def paramsOk_def world0_def isWebUrl_example)

text \<open>
  C2, as the code has it. An invalid source URL (null, empty, or not matching the
  pattern) is rejected before any network request and before any subprocess or store
  call, but after the allocation of the download file: saveTempFile calls \<^verbatim>\<open>tmp.file\<close>
  first and networkGet checks the URL afterwards. When the allocation succeeds the file
  is created, the rejection is logged and the callback gets the "not a supported URI"
  error with a null URL; these are all the events of the run.
\<close>

theorem invalid_url_rejected_after_allocation:
  assumes "\<not> isWebUrl (sourceUrl params)"
  shows "encode env params w =
     (case tmp_file env \<lparr>postfix = getExtension (sourceUrl params) ''.tmp'', keep = True\<rparr> of
        Inl err \<Rightarrow>
          (Uncaught (Error ''TypeError: path must be a string or Buffer''),
           w\<lparr>trace := trace w @
                [TmpFile \<lparr>postfix = getExtension (sourceUrl params) ''.tmp'', keep = True\<rparr>]\<rparr>)
      | Inr inputPath \<Rightarrow>
          (Callback (Some (Error (''Unable to download and save file at path ''
                                  @ jsToString (sourceUrl params) @ ''. Error: The url ''
                                  @ jsToString (sourceUrl params)
                                  @ '' is not a supported URI.''))) None,
           w\<lparr>files := insert inputPath (files w),
              trace := trace w @
                [TmpFile \<lparr>postfix = getExtension (sourceUrl params) ''.tmp'', keep = True\<rparr>,
                 CreateWriteStream inputPath,
                 ConsoleError (''Error thrown: The url '' @ jsToString (sourceUrl params)
                               @ '' is not a supported URI.'')]\<rparr>))"
  by (simp add: encode_def encode_cb_def downloadAndEncode_cb_invalid [OF assms] completed_Nil
      split: sum.splits)

theorem invalid_url_rejected_after_allocation_witness:
  "\<not> isWebUrl (sourceUrl (paramsOk\<lparr>sourceUrl := None\<rparr>))
   \<and> encode envOk (paramsOk\<lparr>sourceUrl := None\<rparr>) world0 =
       (Callback (Some (Error (''Unable to download and save file at path null. ''
                               @ ''Error: The url null is not a supported URI.''))) None,
        \<lparr>files = {''/tmp/tmp-1.tmp''}, awsConfig = (None, None),
         trace = [TmpFile \<lparr>postfix = ''.tmp'', keep = True\<rparr>,
                  CreateWriteStream ''/tmp/tmp-1.tmp'',
                  ConsoleError ''Error thrown: The url null is not a supported URI.'']\<rparr>)"
proof -
  have h: "\<not> isWebUrl (sourceUrl (paramsOk\<lparr>sourceUrl := None\<rparr>))"
    by (simp add: isWebUrl_def)
  from invalid_url_rejected_after_allocation [OF h, of envOk world0] h
  show ?thesis
    by (simp add: envOk_def world0_def getExtension_def jsToString_def)
qed

text \<open>
  C2 as stated fails: for the local path the test-suite uses as a source, which is not a
  web URL, \<^verbatim>\<open>tmp.file\<close> is called and the file it created is on a disk that was empty
  before.
\<close>

theorem temp_file_created_on_validation_failure:
  "\<not> isWebUrl (Some ''/assets/img.png'')
   \<and> ''/tmp/tmp-1.png'' \<notin> files world0
   \<and> TmpFile \<lparr>postfix = ''.png'', keep = True\<rparr>
       \<in> set (trace (snd (encode envOk (paramsOk\<lparr>sourceUrl := Some ''/assets/img.png''\<rparr>) world0)))
   \<and> ''/tmp/tmp-1.png''
       \<in> files (snd (encode envOk (paramsOk\<lparr>sourceUrl := Some ''/assets/img.png''\<rparr>) world0))"
  by (simp add: not_isWebUrl_png run_defs envOk_def paramsOk_def world0_def)

text \<open>
  C3. The suffix of the download file is \<open>getExtension url ".tmp"\<close>. The claim asks for the
  generic \<^verbatim>\<open>.tmp\<close> whenever no extension is present; the code reaches that fall-back for
  a null or empty URL only. For a URL without any dot \<^verbatim>\<open>lastIndexOf\<close> is \<open>-1\<close> and
  \<^verbatim>\<open>substr(-1)\<close> is the last character of the URL, which becomes the suffix; for a URL
  whose last dot is in the host, the suffix runs from that dot through the path.
\<close>

theorem extension_of_dotless_url_is_last_char:
  "CHR ''.'' \<notin> set ''http://localhost/audio''
   \<and> getExtension (Some ''http://localhost/audio'') ''.tmp'' = ''o''
   \<and> newEvents world0 (snd (saveTempFile envOk (Some ''http://localhost/audio'') world0)) =
       [TmpFile \<lparr>postfix = ''o'', keep = True\<rparr>,
        CreateWriteStream ''/tmp/tmp-1o'',
        ConsoleError ''Error thrown: The url http://localhost/audio is not a supported URI.'']
   \<and> getExtension (Some ''http://example.com/audio'') ''.tmp'' = ''.com/audio''"
  by (simp add: saveTempFile_def saveTempFileOptions_def networkGet_def emit_def
      console_error_def jsToString_def getExtension_def substr_def lastIndexOf_def Let_def
      newEvents_def envOk_def world0_def not_isWebUrl_localhost)

text \<open>
  C4. When encode succeeds (its callback gets no error) for bucket \<open>B\<close> and key \<open>K\<close>, the
  URL it passes is exactly \<^verbatim>\<open>"https://s3.amazonaws.com/" + B + "/" + K\<close>: whatever the
  environment answered, the URL is built from the bucket and the key alone.
\<close>

theorem encode_success_url:
  assumes "fst (encode env params w) = Callback None url"
  shows "url = Some (''https://s3.amazonaws.com/'' @ targetBucket params @ ''/'' @ targetKey params)"
proof -
  have cb: "fst (encode_cb env params w) = Callback None url"
    using assms by (simp add: fst_encode)
  obtain r l1 where d: "downloadAndEncode_cb env (sourceUrl params) w = (r, l1)"
    by (cases "downloadAndEncode_cb env (sourceUrl params) w")
  show ?thesis
  proof (cases r)
    case (Uncaught x)
    with d cb show ?thesis by (simp add: encode_cb_def)
  next
    case (Callback de dv)
    show ?thesis
    proof (cases de)
      case (Some err)
      with d Callback cb show ?thesis by (simp add: encode_cb_def)
    next
      case None
      show ?thesis
      proof (cases dv)
        case None
        with d Callback \<open>de = None\<close> cb show ?thesis by (simp add: encode_cb_def Let_def)
      next
        case (Some mp3)
        define w2 where "w2 = emit (ConfigUpdate (accessKeyId params) (accessSecret params))
                      ((now l1)\<lparr>awsConfig := (accessKeyId params, accessSecret params)\<rparr>)"
        obtain s w3 where
          s: "sendOffToBucket env mp3 (targetBucket params) (targetKey params) w2 = (s, w3)"
          by (cases "sendOffToBucket env mp3 (targetBucket params) (targetKey params) w2")
        from d Callback \<open>de = None\<close> Some s cb have "s = Callback None url"
          by (cases s) (simp_all add: encode_cb_def Let_def w2_def)
        with s have "url = Some (urlForKey (targetBucket params) (targetKey params))"
          using sendOffToBucket_success [of env mp3 "targetBucket params" "targetKey params" w2 url]
          by simp
        then show ?thesis by (simp add: urlForKey_def)
      qed
    qed
  qed
qed

theorem encode_success_url_witness:
  "fst (encode envOk paramsOk world0) =
     Callback None (Some ''https://s3.amazonaws.com/bespoken/encoder/test/testKey.mp3'')
   \<and> Some ''https://s3.amazonaws.com/bespoken/encoder/test/testKey.mp3'' =
       Some (''https://s3.amazonaws.com/'' @ targetBucket paramsOk @ ''/'' @ targetKey paramsOk)"
proof -
  have run: "fst (encode envOk paramsOk world0) =
      Callback None (Some ''https://s3.amazonaws.com/bespoken/encoder/test/testKey.mp3'')"
    by (simp add: encode_ok_run)
  from encode_success_url [OF run] run show ?thesis by simp
qed




text \<open>
  C6, as the code has it. In every run of encode in which the download succeeded, the
  callback is called, an unlink of the downloaded file has been issued whatever the
  transcoding did, and an unlink of the mp3 file has been issued whatever the upload did
  (by convertFile itself when the subprocess failed). When these unlinks succeed, neither
  file remains and no file is on disk that was not there before the run; a failing
  unlink is only logged.
\<close>

theorem temp_files_unlinked_after_download:
  assumes "fst (saveTempFile env (sourceUrl params) w) = Callback None (Some inputPath)"
  shows "(\<exists>err url. fst (encode env params w) = Callback err url)
     \<and> Unlink inputPath \<in> set (newEvents w (snd (encode env params w)))
     \<and> (\<forall>outputPath. tmp_tmpName env \<lparr>postfix = ''.mp3'', keep = False\<rparr> = Inr outputPath \<longrightarrow>
            Unlink outputPath \<in> set (newEvents w (snd (encode env params w))))
     \<and> (fs_unlink_failure env inputPath = None
          \<and> (\<forall>outputPath. tmp_tmpName env \<lparr>postfix = ''.mp3'', keep = False\<rparr> = Inr outputPath \<longrightarrow>
                 fs_unlink_failure env outputPath = None) \<longrightarrow>
          inputPath \<notin> files (snd (encode env params w))
          \<and> (\<forall>outputPath. tmp_tmpName env \<lparr>postfix = ''.mp3'', keep = False\<rparr> = Inr outputPath \<longrightarrow>
                 outputPath \<notin> files (snd (encode env params w)))
          \<and> files (snd (encode env params w)) \<subseteq> files w)"
  by (auto simp: encode_def encode_cb_def downloadAndEncode_cb_def
      saveTempFile_success [OF assms] convertFile_cb_def convertFileOptions_def
      sendOffToBucket_def completed_def Let_def newEvents_def world_sel
      split: sum.splits execOutcome.splits option.splits)


theorem temp_files_unlinked_after_download_witness:
  "fst (saveTempFile envOk (sourceUrl paramsOk) world0) = Callback None (Some ''/tmp/tmp-1.m4a'')
   \<and> Unlink ''/tmp/tmp-1.m4a'' \<in> set (newEvents world0 (snd (encode envOk paramsOk world0)))
   \<and> Unlink ''/tmp/tmp-2.mp3'' \<in> set (newEvents world0 (snd (encode envOk paramsOk world0)))
   \<and> ''/tmp/tmp-1.m4a'' \<notin> files (snd (encode envOk paramsOk world0))
   \<and> ''/tmp/tmp-2.mp3'' \<notin> files (snd (encode envOk paramsOk world0))"
proof -
  have h: "fst (saveTempFile envOk (sourceUrl paramsOk) world0) =
      Callback None (Some ''/tmp/tmp-1.m4a'')"
    by (simp add: run_defs envOk_def paramsOk_def world0_def isWebUrl_paramsOk)
  have t: "tmp_tmpName envOk \<lparr>postfix = ''.mp3'', keep = False\<rparr> = Inr ''/tmp/tmp-2.mp3''"
    by (simp add: envOk_def)
  have u: "\<And>p. fs_unlink_failure envOk p = None"
    by (simp add: envOk_def)
  from temp_files_unlinked_after_download [OF h] t u h show ?thesis by simp
qed

text \<open>
  C6 as stated fails: in a complete and successful run in which the file system refuses
  the unlinks, the downloaded file and the mp3 file are both still on disk.
\<close>

theorem temp_files_survive_failed_unlink:
  "fst (saveTempFile envUnlinkFails (sourceUrl paramsOk) world0) =
     Callback None (Some ''/tmp/tmp-1.m4a'')
   \<and> fst (encode envUnlinkFails paramsOk world0) =
       Callback None (Some ''https://s3.amazonaws.com/bespoken/encoder/test/testKey.mp3'')
   \<and> ''/tmp/tmp-1.m4a'' \<notin> files world0
   \<and> ''/tmp/tmp-1.m4a'' \<in> files (snd (encode envUnlinkFails paramsOk world0))
   \<and> ''/tmp/tmp-2.mp3'' \<in> files (snd (encode envUnlinkFails paramsOk world0))"
  by (simp add: run_defs envUnlinkFails_def envOk_def paramsOk_def world0_def isWebUrl_paramsOk)

text \<open>
  C7, as the code has it. Every call of convertFile for which \<^verbatim>\<open>tmp.tmpName\<close> gives an
  output name runs the subprocess exactly once, as \<^verbatim>\<open>ffmpeg -i <normalized input>
  -codec:a libmp3lame -b:a 48k -ar 16000 -af volume=3 <output>\<close>; nothing in the arguments
  comes from the caller but the input path. A call whose \<^verbatim>\<open>tmp.tmpName\<close> fails runs no
  subprocess.
\<close>

theorem convertFile_ffmpeg_profile:
  "execCalls (newEvents w (snd (convertFile env inputFile w))) =
     (case tmp_tmpName env \<lparr>postfix = ''.mp3'', keep = False\<rparr> of
        Inl err \<Rightarrow> []
      | Inr outputPath \<Rightarrow>
          [(''ffmpeg'', [''-i'', path_normalize env inputFile, ''-codec:a'', ''libmp3lame'',
                        ''-b:a'', ''48k'', ''-ar'', ''16000'', ''-af'', ''volume=3'',
                        outputPath])])"
  by (simp add: convertFile_def convertFile_cb_def convertFileOptions_def ffmpegArgs_def
      completed_def Let_def newEvents_def world_sel
      split: sum.splits execOutcome.splits option.splits)

theorem convertFile_ffmpeg_profile_witness:
  "tmp_tmpName envOk \<lparr>postfix = ''.mp3'', keep = False\<rparr> = Inr ''/tmp/tmp-2.mp3''
   \<and> execCalls (newEvents world0 (snd (convertFile envOk ''/tmp/tmp-1.m4a'' world0))) =
       [(''ffmpeg'', [''-i'', ''/tmp/tmp-1.m4a'', ''-codec:a'', ''libmp3lame'', ''-b:a'', ''48k'',
                     ''-ar'', ''16000'', ''-af'', ''volume=3'', ''/tmp/tmp-2.mp3''])]"
  using convertFile_ffmpeg_profile [of world0 envOk "''/tmp/tmp-1.m4a''"]
  by (simp add: envOk_def)

text \<open>
  C7 as stated fails: in a call for which \<^verbatim>\<open>tmp.tmpName\<close> reports an error, convertFile
  calls back with that error and the subprocess is not invoked at all.
\<close>

theorem no_subprocess_without_output_name:
  "fst (convertFile envNoName ''/tmp/tmp-1.m4a'' world0) =
     Callback (Some (Error ''Could not get a unique tmp filename, max tries reached'')) None
   \<and> execCalls (newEvents world0 (snd (convertFile envNoName ''/tmp/tmp-1.m4a'' world0))) = []
   \<and> trace (snd (convertFile envNoName ''/tmp/tmp-1.m4a'' world0)) =
       [TmpName \<lparr>postfix = ''.mp3'', keep = False\<rparr>]"
  by (simp add: convertFile_def convertFile_cb_def convertFileOptions_def completed_def Let_def
      newEvents_def envNoName_def envOk_def world0_def emit_def)

text \<open>
  C8. When reading the local file fails, sendOffToBucket still issues the putObject call,
  with an undefined body, and what the caller gets depends on the answer to that call
  only: the read error appears nowhere in the result.
\<close>

theorem sendOffToBucket_ignores_read_error:
  assumes "fs_readFile env fileUri = Inl readErr"
  shows "sendOffToBucket env fileUri bucket itemKey w =
     ((case s3_putObject env (awsConfig w)
              \<lparr>Bucket = bucket, Key = itemKey, Body = None, ACL = ''public-read''\<rparr> of
         Some err \<Rightarrow> Callback (Some err) None
       | None \<Rightarrow> Callback None (Some (''https://s3.amazonaws.com/'' @ bucket @ ''/'' @ itemKey))),
      w\<lparr>trace := trace w @
           [ReadFile fileUri,
            PutObject \<lparr>Bucket = bucket, Key = itemKey, Body = None, ACL = ''public-read''\<rparr>]\<rparr>)"
  using assms
  by (simp add: sendOffToBucket_def Let_def emit_def urlForKey_def split: option.splits)

theorem sendOffToBucket_ignores_read_error_witness:
  "fs_readFile (envOk\<lparr>fs_readFile := \<lambda>p. Inl (Error ''ENOENT'')\<rparr>) ''/tmp/tmp-2.mp3''
     = Inl (Error ''ENOENT'')
   \<and> sendOffToBucket (envOk\<lparr>fs_readFile := \<lambda>p. Inl (Error ''ENOENT'')\<rparr>)
        ''/tmp/tmp-2.mp3'' ''bucket'' ''key.mp3'' world0 =
       (Callback None (Some ''https://s3.amazonaws.com/bucket/key.mp3''),
        world0\<lparr>trace := trace world0 @
           [ReadFile ''/tmp/tmp-2.mp3'',
            PutObject \<lparr>Bucket = ''bucket'', Key = ''key.mp3'', Body = None,
                       ACL = ''public-read''\<rparr>]\<rparr>)"
proof -
  have h: "fs_readFile (envOk\<lparr>fs_readFile := \<lambda>p. Inl (Error ''ENOENT'')\<rparr>) ''/tmp/tmp-2.mp3''
     = Inl (Error ''ENOENT'')"
    by simp
  from sendOffToBucket_ignores_read_error [OF h, of "''bucket''" "''key.mp3''" world0] h
  show ?thesis by (simp add: envOk_def)
qed

text \<open>
  C9. When the URL is valid and the request ends in a network error or in a status other
  than 200, downloadAndEncode calls back with an error and a null path, the file that
  \<^verbatim>\<open>tmp.file\<close> allocated with \<^verbatim>\<open>keep: true\<close> before the request is still on disk, and
  the call issued no unlink at all.
\<close>

theorem failed_download_leaves_temp_file:
  assumes "isWebUrl (Some u)"
    and "tmp_file env \<lparr>postfix = getExtension (Some u) ''.tmp'', keep = True\<rparr> = Inr p"
    and "request_get env u = RequestError e
         \<or> (request_get env u = Response status \<and> status \<noteq> 200)"
  shows "fst (downloadAndEncode env (Some u) w) =
           Callback (Some (Error (''Unable to download and save file at path '' @ u
                     @ ''. Error: ''
                     @ (case request_get env u of
                          RequestError err \<Rightarrow> message err
                        | Response st \<Rightarrow> ''Could not retrieve file from '' @ u)))) None
         \<and> p \<in> files (snd (downloadAndEncode env (Some u) w))
         \<and> TmpFile \<lparr>postfix = getExtension (Some u) ''.tmp'', keep = True\<rparr>
             \<in> set (newEvents w (snd (downloadAndEncode env (Some u) w)))
         \<and> (\<forall>q. Unlink q \<notin> set (newEvents w (snd (downloadAndEncode env (Some u) w))))"
  using assms
  by (auto simp: downloadAndEncode_def downloadAndEncode_cb_def saveTempFile_def
      saveTempFileOptions_def networkGet_def completed_def emit_def console_error_def Let_def
      jsToString_def newEvents_def)

theorem failed_download_leaves_temp_file_witness:
  "isWebUrl (Some ''http://a.b/c.m4a'')
   \<and> tmp_file (envOk\<lparr>request_get := \<lambda>u. Response 404\<rparr>)
        \<lparr>postfix = getExtension (Some ''http://a.b/c.m4a'') ''.tmp'', keep = True\<rparr>
       = Inr ''/tmp/tmp-1.m4a''
   \<and> request_get (envOk\<lparr>request_get := \<lambda>u. Response 404\<rparr>) ''http://a.b/c.m4a''
       = Response 404
   \<and> fst (downloadAndEncode (envOk\<lparr>request_get := \<lambda>u. Response 404\<rparr>)
            (Some ''http://a.b/c.m4a'') world0) =
       Callback (Some (Error (''Unable to download and save file at path http://a.b/c.m4a. ''
                 @ ''Error: Could not retrieve file from http://a.b/c.m4a''))) None
   \<and> ''/tmp/tmp-1.m4a''
       \<in> files (snd (downloadAndEncode (envOk\<lparr>request_get := \<lambda>u. Response 404\<rparr>)
                        (Some ''http://a.b/c.m4a'') world0))"
proof -
  let ?env = "envOk\<lparr>request_get := \<lambda>u. Response 404\<rparr>"
  have h1: "isWebUrl (Some ''http://a.b/c.m4a'')" by (rule isWebUrl_paramsOk)
  have h2: "tmp_file ?env \<lparr>postfix = getExtension (Some ''http://a.b/c.m4a'') ''.tmp'',
                           keep = True\<rparr> = Inr ''/tmp/tmp-1.m4a''"
    by (simp add: envOk_def getExtension_def substr_def lastIndexOf_def)
  have r: "request_get ?env ''http://a.b/c.m4a'' = Response 404" by simp
  from failed_download_leaves_temp_file [OF h1 h2, of "Error ''''" 404 world0] h1 h2 r
  show ?thesis by simp
qed

text \<open>
  C10, as the code has it. A URL made of an http, https or ftp scheme, \<^verbatim>\<open>://\<close>, a host
  without a dot right after it, and then nothing, a port, a path, a query or a fragment
  is not a web URL for isWebUrl: encode issues no request for it, and (when the download
  file could be allocated) calls back with the "not a supported URI" error.
\<close>

theorem dotless_host_rejected:
  assumes "scheme \<in> {''http'', ''https'', ''ftp''}"
    and "CHR ''.'' \<notin> set host"
    and "rest = [] \<or> hd rest \<in> {CHR '':'', CHR ''/'', CHR ''?'', CHR ''#''}"
    and "sourceUrl params = Some (scheme @ ''://'' @ host @ rest)"
  shows "\<not> isWebUrl (Some (scheme @ ''://'' @ host @ rest))
     \<and> (\<forall>q. RequestGet q \<notin> set (newEvents w (snd (encode env params w))))
     \<and> (\<forall>p. tmp_file env \<lparr>postfix = getExtension (sourceUrl params) ''.tmp'', keep = True\<rparr>
                = Inr p \<longrightarrow>
              fst (encode env params w) =
                Callback (Some (Error (''Unable to download and save file at path ''
                    @ scheme @ ''://'' @ host @ rest @ ''. Error: The url ''
                    @ scheme @ ''://'' @ host @ rest @ '' is not a supported URI.''))) None)"
proof -
  define url where "url = scheme @ ''://'' @ host @ rest"
  have bad: "\<not> isWebUrl (Some url)"
    unfolding url_def using assms(1-3) by (rule not_isWebUrl_dotless)
  have src: "sourceUrl params = Some url"
    unfolding url_def by (rule assms(4))
  have "(\<forall>q. RequestGet q \<notin> set (newEvents w (snd (encode env params w))))
     \<and> (\<forall>p. tmp_file env \<lparr>postfix = getExtension (sourceUrl params) ''.tmp'', keep = True\<rparr>
                = Inr p \<longrightarrow>
              fst (encode env params w) =
                Callback (Some (Error (''Unable to download and save file at path ''
                    @ url @ ''. Error: The url '' @ url @ '' is not a supported URI.''))) None)"
    by (auto simp: encode_def encode_cb_def src downloadAndEncode_cb_invalid [OF bad]
        completed_Nil newEvents_def jsToString_def split: sum.splits)
  with bad show ?thesis unfolding url_def by simp
qed

theorem dotless_host_rejected_witness:
  "\<not> isWebUrl (Some ''http://localhost:8080/a.mp3'')
   \<and> fst (encode envOk (paramsOk\<lparr>sourceUrl := Some ''http://localhost:8080/a.mp3''\<rparr>) world0) =
       Callback (Some (Error (''Unable to download and save file at path ''
           @ ''http://localhost:8080/a.mp3. Error: The url ''
           @ ''http://localhost:8080/a.mp3 is not a supported URI.''))) None"
proof -
  let ?params = "paramsOk\<lparr>sourceUrl := Some ''http://localhost:8080/a.mp3''\<rparr>"
  have s: "''http'' \<in> {''http'', ''https'', ''ftp''}" by simp
  have h: "CHR ''.'' \<notin> set ''localhost''" by simp
  have r: "'':8080/a.mp3'' = [] \<or> hd '':8080/a.mp3'' \<in> {CHR '':'', CHR ''/'', CHR ''?'', CHR ''#''}"
    by simp
  have u: "sourceUrl ?params = Some (''http'' @ ''://'' @ ''localhost'' @ '':8080/a.mp3'')"
    by simp
  have t: "tmp_file envOk \<lparr>postfix = getExtension (sourceUrl ?params) ''.tmp'', keep = True\<rparr>
             = Inr ''/tmp/tmp-1.mp3''"
    by (simp add: envOk_def getExtension_def substr_def lastIndexOf_def)
  from dotless_host_rejected [OF s h r u, of world0 envOk] t show ?thesis by simp
qed

text \<open>
  C10 as stated fails, twice. The host of \<^verbatim>\<open>http://user.name@localhost/a.mp3\<close> is the
  single label \<^verbatim>\<open>localhost\<close>, yet the pattern takes the user information for the dotted
  name it asks for: isWebUrl accepts the URL and encode requests it. And
  \<^verbatim>\<open>http://localhost/dir.v1/audio\<close>, which isWebUrl refuses, is not rejected as an
  unsupported URI: the download file cannot be allocated (its postfix is \<^verbatim>\<open>.v1/audio\<close>)
  and encode ends without calling back.
\<close>

theorem dotless_host_not_always_rejected:
  "spec_urlHost ''http://user.name@localhost/a.mp3'' = ''localhost''
   \<and> CHR ''.'' \<notin> set ''localhost''
   \<and> isWebUrl (Some ''http://user.name@localhost/a.mp3'')
   \<and> RequestGet ''http://user.name@localhost/a.mp3''
       \<in> set (trace (snd (encode envOk
             (paramsOk\<lparr>sourceUrl := Some ''http://user.name@localhost/a.mp3''\<rparr>) world0)))
   \<and> spec_urlHost ''http://localhost/dir.v1/audio'' = ''localhost''
   \<and> \<not> isWebUrl (Some ''http://localhost/dir.v1/audio'')
   \<and> fst (encode envTmp (paramsOk\<lparr>sourceUrl := Some ''http://localhost/dir.v1/audio''\<rparr>) world0) =
       Uncaught (Error ''TypeError: path must be a string or Buffer'')"
  by (simp add: run_defs envTmp_def envOk_def paramsOk_def world0_def isWebUrl_userinfo
      not_isWebUrl_dir spec_urlHost_def spec_urlAuthority_def)

end
